theory Spec2Isabelle
  imports Main
begin

section \<open>JSON payloads as Python sees them\<close>

text \<open>
  \<^verbatim>\<open>response.json()\<close> hands the tray a Python value built from JSON: \<^verbatim>\<open>None\<close>,
  a bool, a number, a string, a list or a dict. The tray only tests such values for
  truth, looks keys up in dicts and iterates over them, so numbers are kept as integers
  (zero is the only false one). A dict is an association list in the daemon's order;
  lookup takes the first entry of a key.
\<close>

datatype json =
    JNull
  | JBool bool
  | JNum int
  | JStr string
  | JArr "json list"
  | JObj "(string \<times> json) list"

text \<open>Python truth value testing (\<^verbatim>\<open>if status:\<close>, \<^verbatim>\<open>if not profiles_data:\<close>).\<close>

fun truthy :: "json \<Rightarrow> bool" where
  "truthy JNull = False"
| "truthy (JBool b) = b"
| "truthy (JNum n) = (n \<noteq> 0)"
| "truthy (JStr s) = (s \<noteq> [])"
| "truthy (JArr xs) = (xs \<noteq> [])"
| "truthy (JObj kvs) = (kvs \<noteq> [])"

text \<open>\<^verbatim>\<open>d.get(key, default)\<close> on a dict.\<close>

definition dict_get :: "(string \<times> json) list \<Rightarrow> string \<Rightarrow> json \<Rightarrow> json" where
  "dict_get kvs k d = (case map_of kvs k of None \<Rightarrow> d | Some v \<Rightarrow> v)"

datatype py_error = AttributeError | KeyError | TypeError

text \<open>
  \<^verbatim>\<open>for profile in profiles\<close>: a list yields its elements, a dict its keys, a string its
  characters; anything else is not iterable.
\<close>

fun py_iter :: "json \<Rightarrow> py_error + json list" where
  "py_iter (JArr xs) = Inr xs"
| "py_iter (JObj kvs) = Inr (map (\<lambda>kv. JStr (fst kv)) kvs)"
| "py_iter (JStr s) = Inr (map (\<lambda>c. JStr [c]) s)"
| "py_iter _ = Inl TypeError"

section \<open>Configuration (lines 24-28)\<close>

record config =
  DAEMON_API_BASE :: string
  WEB_UI_URL :: string
  MOCK_MODE :: bool
  UPDATE_INTERVAL :: nat

text \<open>\<^verbatim>\<open>os.getenv(name, default)\<close> over the process environment.\<close>

definition getenv :: "(string \<rightharpoonup> string) \<Rightarrow> string \<Rightarrow> string \<Rightarrow> string" where
  "getenv env name dflt = (case env name of None \<Rightarrow> dflt | Some v \<Rightarrow> v)"

definition load_config :: "(string \<rightharpoonup> string) \<Rightarrow> config" where
  "load_config env =
     \<lparr> DAEMON_API_BASE = getenv env ''KEYRX_API_URL'' ''http://127.0.0.1:9867'',
       WEB_UI_URL = getenv env ''KEYRX_WEB_UI'' ''http://127.0.0.1:9867'',
       MOCK_MODE = (getenv env ''KEYRX_MOCK'' ''0'' = ''1''),
       UPDATE_INTERVAL = 5000 \<rparr>"

section \<open>The daemon seen through the requests library\<close>

text \<open>
  What one HTTP call can come to inside the \<^verbatim>\<open>try\<close> blocks of \<^verbatim>\<open>api_get\<close> and
  \<^verbatim>\<open>api_post\<close>: the request raises (no connection, or the 2 second timeout), or it
  hands back a response. A response has its status code and a body; the body is given
  as what \<^verbatim>\<open>response.json()\<close> makes of it, \<open>None\<close> when it is not JSON and the call
  raises.
\<close>

datatype http_result =
    ConnectionFailed
  | TimedOut
  | Response nat "json option"

text \<open>
  \<^verbatim>\<open>response.raise_for_status()\<close> of the requests library raises for the client and
  server error codes, 400 to 599, and returns for every other code. The success class
  of HTTP is 200 to 299.
\<close>

definition raise_for_status :: "nat \<Rightarrow> bool" where
  "raise_for_status code = (400 \<le> code \<and> code < 600)"


text \<open>The daemon during one handler run: the result of each request, by URL.\<close>

record network =
  get_result :: "string \<Rightarrow> http_result"
  post_result :: "string \<Rightarrow> json \<Rightarrow> http_result"

section \<open>The tray object\<close>

text \<open>
  The children of \<^verbatim>\<open>profiles_submenu\<close>: the refresh entry and a separator from
  \<^verbatim>\<open>build_menu\<close>, then either the insensitive "No profiles available" entry or one
  check item per profile (label, check state).
\<close>

datatype menu_item =
    RefreshItem
  | SeparatorItem
  | NoProfilesItem
  | ProfileItem string bool

text \<open>
  The label of \<^verbatim>\<open>status_item\<close>: "Status: Checking...", "Profile: " followed by the
  formatted profile value, or "Status: Daemon not running".
\<close>

datatype status_label = StatusChecking | StatusProfile json | StatusNotRunning

text \<open>
  What the tray holds at one moment: the three state attributes, the check state of the
  toggle item and the children of the profiles submenu.
\<close>

record snapshot =
  seen_running :: bool
  seen_profile :: json
  seen_attribute :: bool
  seen_toggle :: bool
  seen_submenu :: "menu_item list"

text \<open>
  Effects that leave the process, in program order: HTTP requests, lines printed,
  desktop notifications and the timer registration. One entry is a ghost:
  \<open>PostEntered\<close> keeps what the tray held when \<^verbatim>\<open>api_post\<close> was entered, so that the
  trace tells what a handler had written before it sent.
\<close>

datatype event =
    HttpGet string
  | HttpPost string json
  | StderrGetError
  | StderrPostError
  | StdoutMockPost string json
  | Notification string string string
  | TimeoutAdd nat
  | PostEntered snapshot

text \<open>
  The attributes of \<^verbatim>\<open>KeyRxTray\<close> that the handlers read or write. \<open>profiles_loaded\<close>
  is \<^verbatim>\<open>hasattr(self, '_profiles_loaded')\<close>; \<open>toggle_item\<close> is the check state of the
  "Enable Remapping" item. Widgets are modelled as the values the source stores in
  them: \<^verbatim>\<open>set_active\<close> and \<^verbatim>\<open>set_label\<close> store, \<^verbatim>\<open>get_active\<close> reads; signals that the
  toolkit itself emits on a store are outside the source and are not modelled.
\<close>

record tray =
  daemon_running :: bool
  current_profile :: json
  remapping_enabled :: bool
  profiles_loaded :: bool
  status_item :: status_label
  toggle_item :: bool
  indicator_icon :: string
  profiles_submenu :: "menu_item list"
  trace :: "event list"

definition emit :: "event \<Rightarrow> tray \<Rightarrow> tray" where
  "emit e s = s\<lparr>trace := trace s @ [e]\<rparr>"

definition observe :: "tray \<Rightarrow> snapshot" where
  "observe s =
     \<lparr> seen_running = daemon_running s,
       seen_profile = current_profile s,
       seen_attribute = remapping_enabled s,
       seen_toggle = toggle_item s,
       seen_submenu = profiles_submenu s \<rparr>"

text \<open>\<^verbatim>\<open>show_notification\<close>, lines 274-277.\<close>

definition show_notification :: "tray \<Rightarrow> string \<Rightarrow> string \<Rightarrow> string \<Rightarrow> tray" where
  "show_notification s title message icon = emit (Notification title message icon) s"

section \<open>Transport: mock\_api\_response, api\_get, api\_post (lines 114-162)\<close>

definition mock_api_response :: "tray \<Rightarrow> string \<Rightarrow> json" where
  "mock_api_response s endpoint =
     (if endpoint = ''/api/status'' then
        JObj [(''running'', JBool True),
              (''version'', JStr ''0.1.0''),
              (''profile'', JStr ''default''),
              (''remapping_enabled'', JBool (remapping_enabled s))]
      else if endpoint = ''/api/profiles'' then
        JObj [(''profiles'',
               JArr [JObj [(''name'', JStr ''default''), (''active'', JBool True)],
                     JObj [(''name'', JStr ''gaming''), (''active'', JBool False)],
                     JObj [(''name'', JStr ''coding''), (''active'', JBool False)]])]
      else JObj [])"

text \<open>
  \<^verbatim>\<open>api_get\<close> returns the parsed body, or \<^verbatim>\<open>None\<close> (here \<open>JNull\<close>) when anything in
  the \<^verbatim>\<open>try\<close> block raised: the request itself, \<^verbatim>\<open>raise_for_status()\<close> or
  \<^verbatim>\<open>response.json()\<close>.
\<close>

definition api_get :: "config \<Rightarrow> network \<Rightarrow> tray \<Rightarrow> string \<Rightarrow> json \<times> tray" where
  "api_get cfg net s endpoint =
     (if MOCK_MODE cfg then (mock_api_response s endpoint, s)
      else
        let url = DAEMON_API_BASE cfg @ endpoint;
            s1 = emit (HttpGet url) s
        in case get_result net url of
             Response code body \<Rightarrow>
               (if raise_for_status code then (JNull, emit StderrGetError s1)
                else case body of
                       Some parsed \<Rightarrow> (parsed, s1)
                     | None \<Rightarrow> (JNull, emit StderrGetError s1))
           | _ \<Rightarrow> (JNull, emit StderrGetError s1))"

text \<open>
  \<^verbatim>\<open>api_post\<close> does not look at the body. Its first step here is the ghost entry with
  the tray as the caller hands it over.
\<close>

definition api_post :: "config \<Rightarrow> network \<Rightarrow> tray \<Rightarrow> string \<Rightarrow> json \<Rightarrow> bool \<times> tray" where
  "api_post cfg net s endpoint data =
     (let s0 = emit (PostEntered (observe s)) s
      in if MOCK_MODE cfg then (True, emit (StdoutMockPost endpoint data) s0)
         else
           let url = DAEMON_API_BASE cfg @ endpoint;
               s1 = emit (HttpPost url data) s0
           in case post_result net url data of
                Response code body \<Rightarrow>
                  (if raise_for_status code then (False, emit StderrPostError s1)
                   else (True, s1))
              | _ \<Rightarrow> (False, emit StderrPostError s1))"

section \<open>update\_profiles (lines 189-208)\<close>

text \<open>
  One turn of the loop body: \<^verbatim>\<open>profile["name"]\<close> needs a dict with that key (a
  missing key is a KeyError, any other value has no string subscript), the label of a
  check item must be text, and \<^verbatim>\<open>set_active\<close> takes the truth value of
  \<^verbatim>\<open>profile.get("active", False)\<close>.
\<close>

fun make_profile_item :: "json \<Rightarrow> py_error + menu_item" where
  "make_profile_item (JObj kvs) =
     (case map_of kvs ''name'' of
        None \<Rightarrow> Inl KeyError
      | Some (JStr name) \<Rightarrow> Inr (ProfileItem name (truthy (dict_get kvs ''active'' (JBool False))))
      | Some _ \<Rightarrow> Inl TypeError)"
| "make_profile_item _ = Inl TypeError"

text \<open>
  The loop appends item after item; when a turn raises, the items appended so far stay
  in the submenu and the exception leaves the handler.
\<close>

fun append_profile_items :: "json list \<Rightarrow> menu_item list \<Rightarrow> py_error option \<times> menu_item list" where
  "append_profile_items [] menu = (None, menu)"
| "append_profile_items (profile # rest) menu =
     (case make_profile_item profile of
        Inl e \<Rightarrow> (Some e, menu)
      | Inr item \<Rightarrow> append_profile_items rest (menu @ [item]))"

text \<open>
  A handler returns the exception that left it, if any, and the tray as it then is.
\<close>

definition update_profiles :: "config \<Rightarrow> network \<Rightarrow> tray \<Rightarrow> py_error option \<times> tray" where
  "update_profiles cfg net s =
     (let s1 = s\<lparr>profiles_submenu := take 2 (profiles_submenu s)\<rparr>;
          (profiles_data, s2) = api_get cfg net s1 ''/api/profiles''
      in if \<not> truthy profiles_data then
           (None, s2\<lparr>profiles_submenu := profiles_submenu s2 @ [NoProfilesItem]\<rparr>)
         else
           (case profiles_data of
              JObj kvs \<Rightarrow>
                (case py_iter (dict_get kvs ''profiles'' (JArr [])) of
                   Inl e \<Rightarrow> (Some e, s2)
                 | Inr profiles \<Rightarrow>
                     (let (err, menu) = append_profile_items profiles (profiles_submenu s2)
                      in (err, s2\<lparr>profiles_submenu := menu\<rparr>)))
            | _ \<Rightarrow> (Some AttributeError, s2)))"

section \<open>update\_status (lines 164-187)\<close>

text \<open>
  The timer callback. Returning without an exception is returning \<^verbatim>\<open>True\<close>
  ("continue polling"). \<^verbatim>\<open>daemon_running\<close> is assigned before \<^verbatim>\<open>status.get\<close> is
  tried, so a true payload that is not a dict leaves it set. \<^verbatim>\<open>set_active(enabled)\<close> and
  the choice of the icon both take the truth value of \<^verbatim>\<open>enabled\<close>.
\<close>

definition update_status :: "config \<Rightarrow> network \<Rightarrow> tray \<Rightarrow> py_error option \<times> tray" where
  "update_status cfg net s =
     (let (status, s1) = api_get cfg net s ''/api/status''
      in if truthy status then
           (let s2 = s1\<lparr>daemon_running := True\<rparr>
            in case status of
                 JObj kvs \<Rightarrow>
                   (let profile = dict_get kvs ''profile'' (JStr ''Unknown'');
                        enabled = dict_get kvs ''remapping_enabled'' (JBool True);
                        s3 = s2\<lparr>current_profile := profile,
                                status_item := StatusProfile profile,
                                toggle_item := truthy enabled,
                                indicator_icon :=
                                  (if truthy enabled then ''input-keyboard''
                                   else ''input-keyboard-symbolic'')\<rparr>
                    in if \<not> profiles_loaded s3 then
                         (case update_profiles cfg net s3 of
                            (None, s4) \<Rightarrow> (None, s4\<lparr>profiles_loaded := True\<rparr>)
                          | (Some e, s4) \<Rightarrow> (Some e, s4))
                       else (None, s3))
               | _ \<Rightarrow> (Some AttributeError, s2))
         else
           (None, s1\<lparr>daemon_running := False,
                     status_item := StatusNotRunning,
                     indicator_icon := ''input-keyboard-symbolic''\<rparr>))"

section \<open>Commands: on\_toggle\_remapping and on\_switch\_profile (lines 210-246)\<close>

text \<open>
  \<^verbatim>\<open>on_toggle_remapping\<close> is connected to \<^verbatim>\<open>toggle_item\<close> (line 70), so \<^verbatim>\<open>widget\<close> is that
  item and \<^verbatim>\<open>widget.get_active()\<close> is its check state when the handler starts: the value
  the user asked for.
\<close>

definition on_toggle_remapping :: "config \<Rightarrow> network \<Rightarrow> tray \<Rightarrow> tray" where
  "on_toggle_remapping cfg net s =
     (let enabled = toggle_item s;
          s1 = s\<lparr>remapping_enabled := enabled\<rparr>;
          (ok, s2) = api_post cfg net s1 ''/api/toggle'' (JObj [(''enabled'', JBool enabled)])
      in if ok then
           show_notification s2 ''KeyRx Remapping''
             (''Remapping '' @ (if enabled then ''enabled'' else ''disabled''))
             ''input-keyboard''
         else
           show_notification (s2\<lparr>toggle_item := \<not> enabled\<rparr>) ''KeyRx Error''
             ''Failed to toggle remapping'' ''dialog-error'')"

text \<open>
  \<^verbatim>\<open>on_switch_profile\<close> is connected to the check item of a profile (line 205) with the
  name of that profile; it never reads \<^verbatim>\<open>widget\<close>.
\<close>

definition on_switch_profile :: "config \<Rightarrow> network \<Rightarrow> tray \<Rightarrow> string \<Rightarrow> py_error option \<times> tray" where
  "on_switch_profile cfg net s profile_name =
     (let (ok, s1) = api_post cfg net s
                       ''/api/profiles/activate'' (JObj [(''name'', JStr profile_name)])
      in if ok then
           update_profiles cfg net
             (show_notification (s1\<lparr>current_profile := JStr profile_name\<rparr>) ''KeyRx Profile''
                (''Switched to profile: '' @ profile_name) ''input-keyboard'')
         else
           (None, show_notification s1 ''KeyRx Error''
                    (''Failed to switch to profile: '' @ profile_name) ''dialog-error''))"

section \<open>Clicks\<close>

text \<open>
  Both handlers hang on check items. A click flips the check state of the item and then
  runs the handler connected to it; this is what \<^verbatim>\<open>on_toggle_remapping\<close> counts on when
  it takes \<^verbatim>\<open>widget.get_active()\<close> for the requested value. \<open>click_toggle_item\<close> is the
  flip of the "Enable Remapping" item, \<open>click_profile_item i\<close> the flip of child \<open>i\<close>
  of the profiles submenu (children 0 and 1 are the refresh entry and the separator).
\<close>

definition click_toggle_item :: "tray \<Rightarrow> tray" where
  "click_toggle_item s = s\<lparr>toggle_item := \<not> toggle_item s\<rparr>"

fun flip_item :: "menu_item \<Rightarrow> menu_item" where
  "flip_item (ProfileItem name active) = ProfileItem name (\<not> active)"
| "flip_item item = item"

definition click_profile_item :: "nat \<Rightarrow> tray \<Rightarrow> tray" where
  "click_profile_item i s =
     (if i < length (profiles_submenu s) then
        s\<lparr>profiles_submenu := (profiles_submenu s)[i := flip_item (profiles_submenu s ! i)]\<rparr>
      else s)"

section \<open>Start-up (lines 31-54)\<close>

text \<open>
  \<^verbatim>\<open>__init__\<close>: the state attributes, the menu of \<^verbatim>\<open>build_menu\<close>, the timer registered
  with \<^verbatim>\<open>UPDATE_INTERVAL\<close>, then the initial poll.
\<close>

definition initial_tray :: "config \<Rightarrow> tray" where
  "initial_tray cfg =
     \<lparr> daemon_running = False,
       current_profile = JNull,
       remapping_enabled = True,
       profiles_loaded = False,
       status_item = StatusChecking,
       toggle_item = True,
       indicator_icon = ''input-keyboard'',
       profiles_submenu = [RefreshItem, SeparatorItem],
       trace = [TimeoutAdd (UPDATE_INTERVAL cfg)] \<rparr>"

definition tray_init :: "config \<Rightarrow> network \<Rightarrow> py_error option \<times> tray" where
  "tray_init cfg net = update_status cfg net (initial_tray cfg)"

section \<open>Observations on traces and menus\<close>

text \<open>HTTP requests among the logged effects, and the POST requests counted.\<close>

fun is_http :: "event \<Rightarrow> bool" where
  "is_http (HttpGet url) = True"
| "is_http (HttpPost url data) = True"
| "is_http _ = False"

fun is_http_post :: "event \<Rightarrow> bool" where
  "is_http_post (HttpPost url data) = True"
| "is_http_post _ = False"

definition network_io :: "event list \<Rightarrow> event list" where
  "network_io evs = filter is_http evs"

definition http_posts :: "event list \<Rightarrow> nat" where
  "http_posts evs = length (filter is_http_post evs)"

text \<open>What the tray held at each entry of \<^verbatim>\<open>api_post\<close>, in order.\<close>

fun post_snapshots :: "event list \<Rightarrow> snapshot list" where
  "post_snapshots [] = []"
| "post_snapshots (PostEntered seen # evs) = seen # post_snapshots evs"
| "post_snapshots (e # evs) = post_snapshots evs"


text \<open>
  Checked profile entries in the submenu, and entries that a profiles payload reports
  as active (the entries the loop of \<^verbatim>\<open>update_profiles\<close> would check).
\<close>

fun is_active_profile :: "menu_item \<Rightarrow> bool" where
  "is_active_profile (ProfileItem name active) = active"
| "is_active_profile _ = False"

definition active_count :: "tray \<Rightarrow> nat" where
  "active_count s = length (filter is_active_profile (profiles_submenu s))"

fun reports_active :: "json \<Rightarrow> bool" where
  "reports_active (JObj kvs) = truthy (dict_get kvs ''active'' (JBool False))"
| "reports_active _ = False"

definition reported_active :: "json \<Rightarrow> nat" where
  "reported_active profiles_data =
     (case profiles_data of
        JObj kvs \<Rightarrow>
          (case py_iter (dict_get kvs ''profiles'' (JArr [])) of
             Inl e \<Rightarrow> 0
           | Inr profiles \<Rightarrow> length (filter reports_active profiles))
      | _ \<Rightarrow> 0)"

text \<open>The submenu still starts with the two entries that \<^verbatim>\<open>build_menu\<close> put there.\<close>

definition menu_ok :: "tray \<Rightarrow> bool" where
  "menu_ok s = (take 2 (profiles_submenu s) = [RefreshItem, SeparatorItem])"

section \<open>Example configurations, daemons and trays\<close>

definition live_cfg :: config where
  "live_cfg = load_config Map.empty"

definition mock_cfg :: config where
  "mock_cfg = load_config (Map.empty(''KEYRX_MOCK'' \<mapsto> ''1''))"

text \<open>
  A daemon that is not there, one that answers, and three with unusual answers; the
  last one answers every request with a code of the 3xx class, a JSON body to a read.
\<close>

definition daemon_down :: network where
  "daemon_down =
     \<lparr> get_result = (\<lambda>url. ConnectionFailed),
       post_result = (\<lambda>url data. ConnectionFailed) \<rparr>"

definition daemon_up :: network where
  "daemon_up =
     \<lparr> get_result = (\<lambda>url.
         if url = ''http://127.0.0.1:9867/api/status'' then
           Response 200 (Some (JObj [(''running'', JBool True), (''profile'', JStr ''coding''),
                                 (''remapping_enabled'', JBool True)]))
         else if url = ''http://127.0.0.1:9867/api/profiles'' then
           Response 200 (Some (JObj [(''profiles'',
             JArr [JObj [(''name'', JStr ''default''), (''active'', JBool False)],
                   JObj [(''name'', JStr ''coding''), (''active'', JBool True)]])]))
         else Response 404 None),
       post_result = (\<lambda>url data. Response 200 None) \<rparr>"

definition two_active_daemon :: network where
  "two_active_daemon =
     \<lparr> get_result = (\<lambda>url.
         if url = ''http://127.0.0.1:9867/api/status'' then
           Response 200 (Some (JObj [(''running'', JBool True), (''profile'', JStr ''gaming''),
                                 (''remapping_enabled'', JBool True)]))
         else if url = ''http://127.0.0.1:9867/api/profiles'' then
           Response 200 (Some (JObj [(''profiles'',
             JArr [JObj [(''name'', JStr ''default''), (''active'', JBool True)],
                   JObj [(''name'', JStr ''gaming''), (''active'', JBool True)]])]))
         else Response 404 None),
       post_result = (\<lambda>url data. Response 200 None) \<rparr>"

definition sparse_daemon :: network where
  "sparse_daemon =
     \<lparr> get_result = (\<lambda>url. Response 200 (Some (JObj [(''running'', JBool True)]))),
       post_result = (\<lambda>url data. Response 200 None) \<rparr>"


text \<open>A tray after a successful poll of a daemon whose active profile is "coding".\<close>

definition coding_tray :: tray where
  "coding_tray =
     \<lparr> daemon_running = True,
       current_profile = JStr ''coding'',
       remapping_enabled = True,
       profiles_loaded = True,
       status_item = StatusProfile (JStr ''coding''),
       toggle_item = True,
       indicator_icon = ''input-keyboard'',
       profiles_submenu = [RefreshItem, SeparatorItem, ProfileItem ''default'' False,
                           ProfileItem ''coding'' True],
       trace = [] \<rparr>"

text \<open>The tray after start-up in mock mode.\<close>

definition mock_ready :: tray where
  "mock_ready = snd (tray_init mock_cfg daemon_down)"

text \<open>Three timer ticks of a live tray: the daemon answers, is away, answers again.\<close>

definition tick1 :: tray where
  "tick1 = snd (update_status live_cfg daemon_up (initial_tray live_cfg))"



section \<open>What the transport leaves alone\<close>

lemma api_get_keeps:
  "daemon_running (snd (api_get cfg net s e)) = daemon_running s"
  "current_profile (snd (api_get cfg net s e)) = current_profile s"
  "remapping_enabled (snd (api_get cfg net s e)) = remapping_enabled s"
  "profiles_loaded (snd (api_get cfg net s e)) = profiles_loaded s"
  "status_item (snd (api_get cfg net s e)) = status_item s"
  "toggle_item (snd (api_get cfg net s e)) = toggle_item s"
  "indicator_icon (snd (api_get cfg net s e)) = indicator_icon s"
  "profiles_submenu (snd (api_get cfg net s e)) = profiles_submenu s"
  by (simp_all add: api_get_def emit_def Let_def split: http_result.splits option.splits)

lemma api_post_keeps:
  "daemon_running (snd (api_post cfg net s e d)) = daemon_running s"
  "current_profile (snd (api_post cfg net s e d)) = current_profile s"
  "remapping_enabled (snd (api_post cfg net s e d)) = remapping_enabled s"
  "profiles_loaded (snd (api_post cfg net s e d)) = profiles_loaded s"
  "status_item (snd (api_post cfg net s e d)) = status_item s"
  "toggle_item (snd (api_post cfg net s e d)) = toggle_item s"
  "indicator_icon (snd (api_post cfg net s e d)) = indicator_icon s"
  "profiles_submenu (snd (api_post cfg net s e d)) = profiles_submenu s"
  by (simp_all add: api_post_def emit_def Let_def split: http_result.splits)


text \<open>The answer of a request does not depend on the tray that makes it.\<close>

lemma api_post_result_any_tray:
  "fst (api_post cfg net s e d) = fst (api_post cfg net s' e d)"
  by (simp add: api_post_def Let_def split: http_result.splits)

lemma api_get_result_any_tray:
  "remapping_enabled s = remapping_enabled s' \<Longrightarrow>
   fst (api_get cfg net s e) = fst (api_get cfg net s' e)"
  by (simp add: api_get_def mock_api_response_def Let_def split: http_result.splits option.splits)

lemma update_profiles_keeps:
  "daemon_running (snd (update_profiles cfg net s)) = daemon_running s"
  "current_profile (snd (update_profiles cfg net s)) = current_profile s"
  "remapping_enabled (snd (update_profiles cfg net s)) = remapping_enabled s"
  "profiles_loaded (snd (update_profiles cfg net s)) = profiles_loaded s"
  "status_item (snd (update_profiles cfg net s)) = status_item s"
  "toggle_item (snd (update_profiles cfg net s)) = toggle_item s"
  "indicator_icon (snd (update_profiles cfg net s)) = indicator_icon s"
  by (simp_all add: update_profiles_def Let_def split_beta api_get_keeps
        split: json.splits sum.splits)

lemma update_profiles_trace:
  "trace (snd (update_profiles cfg net s))
     = trace (snd (api_get cfg net (s\<lparr>profiles_submenu := take 2 (profiles_submenu s)\<rparr>)
                     ''/api/profiles''))"
  by (simp add: update_profiles_def Let_def split_beta split: json.splits sum.splits)

section \<open>Transport outcomes\<close>




section \<open>Polling\<close>

text \<open>
  C4. A failed poll is one whose status read comes back false (\<^verbatim>\<open>None\<close> from a failed
  request, or a false payload). It sets \<^verbatim>\<open>daemon_running\<close> to false and leaves the
  profile name, the remapping attribute, the check state of the toggle item and the
  profile entries as they were.
\<close>

theorem failed_poll_keeps_last_known:
  assumes "\<not> truthy (fst (api_get cfg net s ''/api/status''))"
  shows "fst (update_status cfg net s) = None
       \<and> daemon_running (snd (update_status cfg net s)) = False
       \<and> current_profile (snd (update_status cfg net s)) = current_profile s
       \<and> remapping_enabled (snd (update_status cfg net s)) = remapping_enabled s
       \<and> toggle_item (snd (update_status cfg net s)) = toggle_item s
       \<and> profiles_submenu (snd (update_status cfg net s)) = profiles_submenu s"
  using assms by (simp add: update_status_def split_beta api_get_keeps)

theorem failed_poll_keeps_last_known_witness:
  "\<not> truthy (fst (api_get live_cfg daemon_down coding_tray ''/api/status''))
   \<and> daemon_running (snd (update_status live_cfg daemon_down coding_tray)) = False
   \<and> current_profile (snd (update_status live_cfg daemon_down coding_tray)) = JStr ''coding''
   \<and> remapping_enabled (snd (update_status live_cfg daemon_down coding_tray)) = True"
proof -
  have failed: "\<not> truthy (fst (api_get live_cfg daemon_down coding_tray ''/api/status''))"
    by (simp add: api_get_def live_cfg_def load_config_def getenv_def daemon_down_def)
  from failed_poll_keeps_last_known [OF failed] failed show ?thesis
    by (simp add: coding_tray_def)
qed

text \<open>
  C10. A status payload that is a non-empty object counts as a successful poll whatever
  keys it has: \<^verbatim>\<open>daemon_running\<close> becomes true, a missing "profile" key gives the profile
  name "Unknown", and a missing "remapping_enabled" key gives the value true, which the
  poll stores in the toggle item and shows in the icon.
\<close>

theorem partial_status_defaults:
  assumes "fst (api_get cfg net s ''/api/status'') = JObj kvs" and "kvs \<noteq> []"
  shows "daemon_running (snd (update_status cfg net s))
       \<and> (map_of kvs ''profile'' = None \<longrightarrow>
            current_profile (snd (update_status cfg net s)) = JStr ''Unknown'')
       \<and> (map_of kvs ''remapping_enabled'' = None \<longrightarrow>
            toggle_item (snd (update_status cfg net s))
            \<and> indicator_icon (snd (update_status cfg net s)) = ''input-keyboard'')"
  using assms
  by (auto simp add: update_status_def split_beta Let_def update_profiles_keeps dict_get_def
        split: prod.splits option.splits)

theorem partial_status_defaults_witness:
  "fst (api_get live_cfg sparse_daemon (coding_tray\<lparr>toggle_item := False\<rparr>) ''/api/status'')
     = JObj [(''running'', JBool True)]
   \<and> map_of [(''running'', JBool True)] ''profile'' = None
   \<and> map_of [(''running'', JBool True)] ''remapping_enabled'' = None
   \<and> daemon_running (snd (update_status live_cfg sparse_daemon (coding_tray\<lparr>toggle_item := False\<rparr>)))
   \<and> current_profile (snd (update_status live_cfg sparse_daemon (coding_tray\<lparr>toggle_item := False\<rparr>)))
       = JStr ''Unknown''
   \<and> toggle_item (snd (update_status live_cfg sparse_daemon (coding_tray\<lparr>toggle_item := False\<rparr>)))"
proof -
  have got: "fst (api_get live_cfg sparse_daemon (coding_tray\<lparr>toggle_item := False\<rparr>) ''/api/status'')
               = JObj [(''running'', JBool True)]"
    by (simp add: api_get_def live_cfg_def load_config_def getenv_def sparse_daemon_def raise_for_status_def)
  have nonempty: "[(''running'', JBool True)] \<noteq> []"
    by simp
  from partial_status_defaults [OF got nonempty] got show ?thesis
    by simp
qed

section \<open>When the profile list is fetched\<close>









lemma tick1_eq:
  "tick1 = \<lparr>daemon_running = True, current_profile = JStr ''coding'',
     remapping_enabled = True, profiles_loaded = True,
     status_item = StatusProfile (JStr ''coding''), toggle_item = True,
     indicator_icon = ''input-keyboard'',
     profiles_submenu = [RefreshItem, SeparatorItem, ProfileItem ''default'' False,
                         ProfileItem ''coding'' True],
     trace = [TimeoutAdd 5000, HttpGet ''http://127.0.0.1:9867/api/status'',
              HttpGet ''http://127.0.0.1:9867/api/profiles'']\<rparr>"
  by (simp add: tick1_def update_status_def update_profiles_def api_get_def emit_def
        initial_tray_def live_cfg_def load_config_def getenv_def daemon_up_def raise_for_status_def dict_get_def
        Let_def)



section \<open>The poll interval\<close>

text \<open>
  C9, as the code has it. The interval is the constant 5000 ms whatever the environment
  holds, and it is the period with which \<^verbatim>\<open>__init__\<close> registers the timer.
\<close>

theorem interval_is_constant:
  "UPDATE_INTERVAL (load_config env) = 5000
   \<and> trace (initial_tray (load_config env)) = [TimeoutAdd 5000]"
  by (simp add: load_config_def initial_tray_def)

text \<open>
  C9 as stated makes the interval an option read from the environment like the base URL
  and the mock flag. An environment that sets all of them changes the base URL and the
  mock flag, and leaves the interval at 5000.
\<close>

theorem interval_ignores_environment:
  "UPDATE_INTERVAL (load_config (map_of [(''KEYRX_API_URL'', ''http://10.0.0.7:8000''),
        (''KEYRX_MOCK'', ''1''), (''KEYRX_POLL_INTERVAL_MS'', ''1000''),
        (''KEYRX_UPDATE_INTERVAL'', ''1000'')])) = 5000
   \<and> DAEMON_API_BASE (load_config (map_of [(''KEYRX_API_URL'', ''http://10.0.0.7:8000''),
        (''KEYRX_MOCK'', ''1''), (''KEYRX_POLL_INTERVAL_MS'', ''1000''),
        (''KEYRX_UPDATE_INTERVAL'', ''1000'')])) = ''http://10.0.0.7:8000''
   \<and> MOCK_MODE (load_config (map_of [(''KEYRX_API_URL'', ''http://10.0.0.7:8000''),
        (''KEYRX_MOCK'', ''1''), (''KEYRX_POLL_INTERVAL_MS'', ''1000''),
        (''KEYRX_UPDATE_INTERVAL'', ''1000'')]))"
  by (simp add: load_config_def getenv_def)

section \<open>Commands\<close>

text \<open>
  Requests sent by a command: \<^verbatim>\<open>api_post\<close> returns only when its request is over, and
  each run of a command handler of a live tray adds exactly one POST to the trace.
\<close>

lemma api_get_posts: "http_posts (trace (snd (api_get cfg net s e))) = http_posts (trace s)"
  by (simp add: api_get_def emit_def http_posts_def Let_def
        split: http_result.splits option.splits)

lemma update_profiles_posts:
  "http_posts (trace (snd (update_profiles cfg net s))) = http_posts (trace s)"
  by (simp add: update_profiles_trace api_get_posts)

lemma api_post_posts:
  "\<not> MOCK_MODE cfg \<Longrightarrow>
   http_posts (trace (snd (api_post cfg net s e d))) = Suc (http_posts (trace s))"
  by (simp add: api_post_def emit_def http_posts_def Let_def split: http_result.splits)

lemma show_notification_posts:
  "http_posts (trace (show_notification s title message icon)) = http_posts (trace s)"
  by (simp add: show_notification_def emit_def http_posts_def)

lemma on_switch_profile_posts:
  assumes "\<not> MOCK_MODE cfg"
  shows "http_posts (trace (snd (on_switch_profile cfg net s profile_name)))
       = Suc (http_posts (trace s))"
proof -
  let ?data = "JObj [(''name'', JStr profile_name)]"
  obtain ok s1 where post: "api_post cfg net s ''/api/profiles/activate'' ?data = (ok, s1)"
    by (cases "api_post cfg net s ''/api/profiles/activate'' ?data")
  have s1: "http_posts (trace s1) = Suc (http_posts (trace s))"
    using api_post_posts [OF assms, of net s "''/api/profiles/activate''" ?data]
    by (simp add: post)
  show ?thesis
  proof (cases ok)
    case True
    then show ?thesis
      using s1
      by (simp add: on_switch_profile_def post update_profiles_posts
            show_notification_posts)
  next
    case False
    then show ?thesis
      using s1
      by (simp add: on_switch_profile_def post show_notification_posts)
  qed
qed

lemma on_toggle_remapping_posts:
  assumes "\<not> MOCK_MODE cfg"
  shows "http_posts (trace (on_toggle_remapping cfg net s)) = Suc (http_posts (trace s))"
proof -
  let ?s1 = "s\<lparr>remapping_enabled := toggle_item s\<rparr>"
  let ?data = "JObj [(''enabled'', JBool (toggle_item s))]"
  obtain ok s2 where post: "api_post cfg net ?s1 ''/api/toggle'' ?data = (ok, s2)"
    by (cases "api_post cfg net ?s1 ''/api/toggle'' ?data")
  have s2: "http_posts (trace s2) = Suc (http_posts (trace s))"
    using api_post_posts [OF assms, of net ?s1 "''/api/toggle''" ?data] by (simp add: post)
  show ?thesis
    using s2
    by (cases ok) (simp_all add: on_toggle_remapping_def Let_def post show_notification_posts)
qed

text \<open>
  C1. The toggle item is checked (remapping shown as enabled), the user unchecks it and
  the POST fails: under the comment "Revert on failure" the handler sets the item back,
  so when the command is over the item is checked as it was before the click. The item
  is where every poll stores the remapping state it reads. (The attribute
  \<^verbatim>\<open>remapping_enabled\<close>, read by the mock status payload only, keeps the requested
  value.)
\<close>

theorem failed_toggle_restores_item:
  assumes "toggle_item s"
    and "\<not> fst (api_post cfg net s ''/api/toggle'' (JObj [(''enabled'', JBool False)]))"
  shows "toggle_item (on_toggle_remapping cfg net (click_toggle_item s)) = True"
proof -
  let ?s1 = "s\<lparr>toggle_item := False, remapping_enabled := False\<rparr>"
  have "\<not> fst (api_post cfg net ?s1 ''/api/toggle'' (JObj [(''enabled'', JBool False)]))"
    using assms(2) api_post_result_any_tray [of cfg net ?s1 _ _ s] by simp
  then show ?thesis
    using assms(1)
    by (simp add: click_toggle_item_def on_toggle_remapping_def split_beta Let_def
          show_notification_def emit_def api_post_keeps)
qed

theorem failed_toggle_restores_item_witness:
  "toggle_item coding_tray
   \<and> \<not> fst (api_post live_cfg daemon_down coding_tray ''/api/toggle''
              (JObj [(''enabled'', JBool False)]))
   \<and> \<not> toggle_item (click_toggle_item coding_tray)
   \<and> toggle_item (on_toggle_remapping live_cfg daemon_down (click_toggle_item coding_tray)) = True"
proof -
  have checked: "toggle_item coding_tray"
    by (simp add: coding_tray_def)
  have failure: "\<not> fst (api_post live_cfg daemon_down coding_tray ''/api/toggle''
                         (JObj [(''enabled'', JBool False)]))"
    by (simp add: api_post_def live_cfg_def load_config_def getenv_def daemon_down_def)
  from failed_toggle_restores_item [OF checked failure] checked failure show ?thesis
    by (simp add: click_toggle_item_def)
qed

lemma mock_ready_eq:
  "mock_ready = \<lparr>daemon_running = True, current_profile = JStr ''default'',
     remapping_enabled = True, profiles_loaded = True,
     status_item = StatusProfile (JStr ''default''), toggle_item = True,
     indicator_icon = ''input-keyboard'',
     profiles_submenu =
       [RefreshItem, SeparatorItem, ProfileItem ''default'' True,
        ProfileItem ''gaming'' False, ProfileItem ''coding'' False],
     trace = [TimeoutAdd 5000]\<rparr>"
  by (simp add: mock_ready_def tray_init_def update_status_def update_profiles_def api_get_def
        mock_api_response_def initial_tray_def mock_cfg_def load_config_def getenv_def
        dict_get_def Let_def)

text \<open>What the trace keeps of the tray at each send.\<close>

lemma post_snapshots_append:
  "post_snapshots (xs @ ys) = post_snapshots xs @ post_snapshots ys"
  by (induction xs rule: post_snapshots.induct) simp_all

lemma api_get_snapshots:
  "post_snapshots (trace (snd (api_get cfg net s e))) = post_snapshots (trace s)"
  by (simp add: api_get_def emit_def Let_def post_snapshots_append
        split: http_result.splits option.splits)

lemma update_profiles_snapshots:
  "post_snapshots (trace (snd (update_profiles cfg net s))) = post_snapshots (trace s)"
  by (simp add: update_profiles_trace api_get_snapshots)

lemma api_post_snapshots:
  "post_snapshots (trace (snd (api_post cfg net s e d))) = post_snapshots (trace s) @ [observe s]"
  by (simp add: api_post_def emit_def Let_def post_snapshots_append split: http_result.splits)

lemma show_notification_snapshots:
  "post_snapshots (trace (show_notification s title message icon)) = post_snapshots (trace s)"
  by (simp add: show_notification_def emit_def post_snapshots_append)

lemma on_switch_profile_snapshots:
  "post_snapshots (trace (snd (on_switch_profile cfg net s profile_name)))
     = post_snapshots (trace s) @ [observe s]"
proof -
  let ?data = "JObj [(''name'', JStr profile_name)]"
  obtain ok s1 where post: "api_post cfg net s ''/api/profiles/activate'' ?data = (ok, s1)"
    by (cases "api_post cfg net s ''/api/profiles/activate'' ?data")
  have s1: "post_snapshots (trace s1) = post_snapshots (trace s) @ [observe s]"
    using api_post_snapshots [of cfg net s "''/api/profiles/activate''" ?data]
    by (simp add: post)
  show ?thesis
  proof (cases ok)
    case True
    have "post_snapshots (trace (snd (on_switch_profile cfg net s profile_name)))
            = post_snapshots (trace (show_notification (s1\<lparr>current_profile := JStr profile_name\<rparr>)
                ''KeyRx Profile'' (''Switched to profile: '' @ profile_name) ''input-keyboard''))"
      using True by (simp add: on_switch_profile_def post update_profiles_snapshots)
    also have "\<dots> = post_snapshots (trace s1)"
      by (simp add: show_notification_snapshots)
    finally show ?thesis by (simp add: s1)
  next
    case False
    then show ?thesis
      using s1 by (simp add: on_switch_profile_def post show_notification_snapshots)
  qed
qed

text \<open>
  C3, as the code has it. The one send of \<^verbatim>\<open>on_switch_profile\<close> finds the tray exactly
  as the handler found it: the handler has written nothing of its own before the call,
  neither the profile name nor any check state, and keeps no earlier value. The profile
  name becomes the requested one when the call is acknowledged, and stays what it was
  when the call fails.
\<close>

theorem switch_updates_after_ack:
  "post_snapshots (trace (snd (on_switch_profile cfg net s profile_name)))
     = post_snapshots (trace s) @ [observe s]
   \<and> (fst (api_post cfg net s ''/api/profiles/activate'' (JObj [(''name'', JStr profile_name)]))
        \<longrightarrow> current_profile (snd (on_switch_profile cfg net s profile_name)) = JStr profile_name)
   \<and> (\<not> fst (api_post cfg net s ''/api/profiles/activate'' (JObj [(''name'', JStr profile_name)]))
        \<longrightarrow> current_profile (snd (on_switch_profile cfg net s profile_name)) = current_profile s)"
  by (simp add: on_switch_profile_snapshots)
    (simp add: on_switch_profile_def split_beta update_profiles_keeps show_notification_def
       emit_def api_post_keeps)

theorem switch_updates_after_ack_witness:
  "fst (api_post mock_cfg daemon_down (click_profile_item 3 mock_ready) ''/api/profiles/activate''
         (JObj [(''name'', JStr ''gaming'')]))
   \<and> current_profile (snd (on_switch_profile mock_cfg daemon_down
        (click_profile_item 3 mock_ready) ''gaming'')) = JStr ''gaming''
   \<and> \<not> fst (api_post live_cfg daemon_down (click_profile_item 2 coding_tray)
              ''/api/profiles/activate'' (JObj [(''name'', JStr ''default'')]))
   \<and> current_profile (snd (on_switch_profile live_cfg daemon_down
        (click_profile_item 2 coding_tray) ''default'')) = JStr ''coding''
   \<and> post_snapshots (trace (snd (on_switch_profile live_cfg daemon_down
        (click_profile_item 2 coding_tray) ''default'')))
       = [observe (click_profile_item 2 coding_tray)]"
proof -
  have ack: "fst (api_post mock_cfg daemon_down (click_profile_item 3 mock_ready)
                   ''/api/profiles/activate'' (JObj [(''name'', JStr ''gaming'')]))"
    by (simp add: api_post_def mock_cfg_def load_config_def getenv_def)
  have failure: "\<not> fst (api_post live_cfg daemon_down (click_profile_item 2 coding_tray)
                         ''/api/profiles/activate'' (JObj [(''name'', JStr ''default'')]))"
    by (simp add: api_post_def live_cfg_def load_config_def getenv_def daemon_down_def)
  from switch_updates_after_ack [of mock_cfg daemon_down "click_profile_item 3 mock_ready"
      "''gaming''"]
    switch_updates_after_ack [of live_cfg daemon_down "click_profile_item 2 coding_tray"
      "''default''"]
  show ?thesis using ack failure by (simp add: click_profile_item_def coding_tray_def)
qed

text \<open>
  C3 as stated has the snapshot show the requested profile, and no other, when the
  request is sent. After start-up in mock mode the user clicks "gaming": at the send the
  profile name is still "default" and the entry "default" is still checked beside the
  clicked one.
\<close>

theorem switch_not_optimistic:
  "post_snapshots (trace (snd (on_switch_profile mock_cfg daemon_down
       (click_profile_item 3 mock_ready) ''gaming'')))
     = [\<lparr> seen_running = True, seen_profile = JStr ''default'', seen_attribute = True,
          seen_toggle = True,
          seen_submenu = [RefreshItem, SeparatorItem, ProfileItem ''default'' True,
                          ProfileItem ''gaming'' True, ProfileItem ''coding'' False] \<rparr>]"
  by (simp add: on_switch_profile_def api_post_def api_get_def update_profiles_def
        mock_api_response_def show_notification_def emit_def observe_def
        click_profile_item_def mock_ready_eq mock_cfg_def load_config_def getenv_def
        dict_get_def Let_def)

section \<open>Active profiles in the submenu\<close>

lemma make_profile_item_active:
  "make_profile_item p = Inr item \<Longrightarrow> is_active_profile item = reports_active p"
  by (cases p) (auto split: option.splits json.splits)

lemma append_profile_items_active:
  "length (filter is_active_profile (snd (append_profile_items ps menu)))
     \<le> length (filter is_active_profile menu) + length (filter reports_active ps)"
proof (induction ps arbitrary: menu)
  case Nil
  then show ?case by simp
next
  case (Cons p ps)
  show ?case
  proof (cases "make_profile_item p")
    case (Inl e)
    then show ?thesis by simp
  next
    case (Inr item)
    have act: "is_active_profile item = reports_active p"
      by (rule make_profile_item_active [OF Inr])
    from Cons.IH [of "menu @ [item]"]
    show ?thesis by (cases "reports_active p") (simp_all add: Inr act)
  qed
qed

lemma append_profile_items_prefix:
  "take (length menu) (snd (append_profile_items ps menu)) = menu"
proof (induction ps arbitrary: menu)
  case Nil
  then show ?case by simp
next
  case (Cons p ps)
  show ?case
  proof (cases "make_profile_item p")
    case (Inl e)
    then show ?thesis by simp
  next
    case (Inr item)
    have "take (length menu)
            (take (length (menu @ [item])) (snd (append_profile_items ps (menu @ [item]))))
          = take (length menu) (menu @ [item])"
      by (simp only: Cons.IH)
    then show ?thesis by (simp add: Inr min_def)
  qed
qed

text \<open>The submenu after a refresh, from the fixed entries and the fetched payload.\<close>

lemma update_profiles_submenu:
  "profiles_submenu (snd (update_profiles cfg net s)) =
     (let fixed = take 2 (profiles_submenu s);
          profiles_data = fst (api_get cfg net s ''/api/profiles'')
      in if \<not> truthy profiles_data then fixed @ [NoProfilesItem]
         else case profiles_data of
                JObj kvs \<Rightarrow> (case py_iter (dict_get kvs ''profiles'' (JArr [])) of
                              Inl e \<Rightarrow> fixed
                            | Inr profiles \<Rightarrow> snd (append_profile_items profiles fixed))
              | _ \<Rightarrow> fixed)"
proof -
  have same: "fst (api_get cfg net (s\<lparr>profiles_submenu := take 2 (profiles_submenu s)\<rparr>)
                    ''/api/profiles'')
            = fst (api_get cfg net s ''/api/profiles'')"
    by (rule api_get_result_any_tray) simp
  show ?thesis
    unfolding same [symmetric]
    by (simp add: update_profiles_def Let_def split_beta api_get_keeps
          split: json.splits sum.splits)
qed

lemma update_profiles_active:
  assumes "menu_ok s"
  shows "active_count (snd (update_profiles cfg net s))
           \<le> reported_active (fst (api_get cfg net s ''/api/profiles''))"
proof -
  have fixed: "filter is_active_profile (take 2 (profiles_submenu s)) = []"
    using assms by (simp add: menu_ok_def)
  show ?thesis
    using fixed append_profile_items_active [of _ "take 2 (profiles_submenu s)"]
    by (simp add: active_count_def update_profiles_submenu reported_active_def Let_def
          split: json.splits sum.splits)
qed

lemma update_profiles_menu_ok:
  assumes "menu_ok s"
  shows "menu_ok (snd (update_profiles cfg net s))"
proof -
  have len: "length (take 2 (profiles_submenu s)) = 2"
    using assms by (simp add: menu_ok_def)
  have pre: "take 2 (snd (append_profile_items ps (take 2 (profiles_submenu s))))
               = take 2 (profiles_submenu s)" for ps
    using append_profile_items_prefix [of "take 2 (profiles_submenu s)" ps] len by simp
  show ?thesis
    using assms pre
    by (simp add: menu_ok_def update_profiles_submenu Let_def split: json.splits sum.splits)
qed

lemma update_profiles_submenu_cong:
  assumes "profiles_submenu s' = profiles_submenu s"
    and "remapping_enabled s' = remapping_enabled s"
  shows "profiles_submenu (snd (update_profiles cfg net s'))
       = profiles_submenu (snd (update_profiles cfg net s))"
proof -
  have "fst (api_get cfg net s' ''/api/profiles'') = fst (api_get cfg net s ''/api/profiles'')"
    using assms(2) by (rule api_get_result_any_tray)
  then show ?thesis by (simp add: update_profiles_submenu assms(1))
qed

text \<open>A poll either leaves the submenu alone or rebuilds it as a refresh would.\<close>

lemma update_status_submenu:
  "profiles_submenu (snd (update_status cfg net s)) = profiles_submenu s
   \<or> profiles_submenu (snd (update_status cfg net s))
       = profiles_submenu (snd (update_profiles cfg net s))"
proof -
  obtain status s1 where get: "api_get cfg net s ''/api/status'' = (status, s1)"
    by (cases "api_get cfg net s ''/api/status''")
  have m1: "profiles_submenu s1 = profiles_submenu s"
    and r1: "remapping_enabled s1 = remapping_enabled s"
    using api_get_keeps(8) [of cfg net s "''/api/status''"]
      api_get_keeps(3) [of cfg net s "''/api/status''"] get by simp_all
  show ?thesis
  proof (cases "\<exists>kvs. status = JObj kvs \<and> kvs \<noteq> [] \<and> \<not> profiles_loaded s1")
    case True
    then obtain kvs where st: "status = JObj kvs" "kvs \<noteq> []" "\<not> profiles_loaded s1"
      by blast
    let ?enabled = "truthy (dict_get kvs ''remapping_enabled'' (JBool True))"
    let ?s3 = "s1\<lparr>daemon_running := True,
                   current_profile := dict_get kvs ''profile'' (JStr ''Unknown''),
                   status_item := StatusProfile (dict_get kvs ''profile'' (JStr ''Unknown'')),
                   toggle_item := ?enabled,
                   indicator_icon := (if ?enabled then ''input-keyboard''
                                      else ''input-keyboard-symbolic'')\<rparr>"
    obtain err s4 where up: "update_profiles cfg net ?s3 = (err, s4)"
      by (cases "update_profiles cfg net ?s3")
    have "profiles_submenu (snd (update_status cfg net s)) = profiles_submenu s4"
      using st up by (cases err) (simp_all add: update_status_def get Let_def)
    also have "\<dots> = profiles_submenu (snd (update_profiles cfg net ?s3))"
      by (simp add: up)
    also have "\<dots> = profiles_submenu (snd (update_profiles cfg net s))"
      by (rule update_profiles_submenu_cong) (simp_all add: m1 r1)
    finally show ?thesis by simp
  next
    case False
    then have "profiles_submenu (snd (update_status cfg net s)) = profiles_submenu s"
      using m1 by (cases status) (auto simp add: update_status_def get Let_def)
    then show ?thesis by simp
  qed
qed

text \<open>An acknowledged switch rebuilds the submenu as a refresh would.\<close>

lemma on_switch_profile_submenu:
  assumes "fst (api_post cfg net s ''/api/profiles/activate'' (JObj [(''name'', JStr profile_name)]))"
  shows "profiles_submenu (snd (on_switch_profile cfg net s profile_name))
       = profiles_submenu (snd (update_profiles cfg net s))"
proof -
  let ?data = "JObj [(''name'', JStr profile_name)]"
  obtain ok s1 where post: "api_post cfg net s ''/api/profiles/activate'' ?data = (ok, s1)"
    by (cases "api_post cfg net s ''/api/profiles/activate'' ?data")
  have ok: "ok" using assms post by simp
  have m1: "profiles_submenu s1 = profiles_submenu s"
    and r1: "remapping_enabled s1 = remapping_enabled s"
    using api_post_keeps(8) [of cfg net s "''/api/profiles/activate''" ?data]
      api_post_keeps(3) [of cfg net s "''/api/profiles/activate''" ?data] post by simp_all
  let ?s2 = "show_notification (s1\<lparr>current_profile := JStr profile_name\<rparr>) ''KeyRx Profile''
               (''Switched to profile: '' @ profile_name) ''input-keyboard''"
  have "profiles_submenu (snd (on_switch_profile cfg net s profile_name))
          = profiles_submenu (snd (update_profiles cfg net ?s2))"
    using ok by (simp add: on_switch_profile_def post)
  also have "\<dots> = profiles_submenu (snd (update_profiles cfg net s))"
    by (rule update_profiles_submenu_cong) (simp_all add: show_notification_def emit_def m1 r1)
  finally show ?thesis .
qed

lemma on_toggle_remapping_submenu:
  "profiles_submenu (on_toggle_remapping cfg net s) = profiles_submenu s"
  by (simp add: on_toggle_remapping_def split_beta Let_def show_notification_def emit_def
        api_post_keeps)

lemma same_submenu:
  "profiles_submenu s' = profiles_submenu s \<Longrightarrow>
   active_count s' = active_count s \<and> menu_ok s' = menu_ok s"
  by (simp add: active_count_def menu_ok_def)

text \<open>
  C7, as the code has it. The tray copies the daemon's list and enforces nothing of its
  own. While the list the daemon reports in the current handler run has at most one
  active entry: a refresh and an acknowledged profile switch rebuild the profile entries
  from that list and leave at most one of them checked, whatever was checked before
  (the entry the user clicked included); a poll and a toggle leave at most one checked
  when at most one was checked before. The two fixed entries at the head of the submenu
  stay. Nothing is said here of a switch the daemon refuses.
\<close>

theorem active_profiles_follow_daemon:
  assumes "menu_ok s"
    and "reported_active (fst (api_get cfg net s ''/api/profiles'')) \<le> 1"
  shows "active_count (snd (update_profiles cfg net s)) \<le> 1
       \<and> menu_ok (snd (update_profiles cfg net s))
       \<and> (fst (api_post cfg net s ''/api/profiles/activate'' (JObj [(''name'', JStr profile_name)]))
            \<longrightarrow> active_count (snd (on_switch_profile cfg net s profile_name)) \<le> 1
              \<and> menu_ok (snd (on_switch_profile cfg net s profile_name)))
       \<and> (active_count s \<le> 1
            \<longrightarrow> active_count (snd (update_status cfg net s)) \<le> 1
              \<and> menu_ok (snd (update_status cfg net s))
              \<and> active_count (on_toggle_remapping cfg net s) \<le> 1
              \<and> menu_ok (on_toggle_remapping cfg net s))"
proof -
  have up: "active_count (snd (update_profiles cfg net s)) \<le> 1
          \<and> menu_ok (snd (update_profiles cfg net s))"
    using update_profiles_active [OF assms(1), of cfg net] assms(2)
      update_profiles_menu_ok [OF assms(1), of cfg net] by simp
  have sw: "active_count (snd (on_switch_profile cfg net s profile_name)) \<le> 1
          \<and> menu_ok (snd (on_switch_profile cfg net s profile_name))"
    if "fst (api_post cfg net s ''/api/profiles/activate'' (JObj [(''name'', JStr profile_name)]))"
    using same_submenu [OF on_switch_profile_submenu [OF that]] up by simp
  have st: "active_count (snd (update_status cfg net s)) \<le> 1
          \<and> menu_ok (snd (update_status cfg net s))"
    if "active_count s \<le> 1"
    using update_status_submenu [of cfg net s] up assms(1) that same_submenu by metis
  have tg: "active_count (on_toggle_remapping cfg net s) \<le> 1
          \<and> menu_ok (on_toggle_remapping cfg net s)"
    if "active_count s \<le> 1"
    using same_submenu [OF on_toggle_remapping_submenu, of cfg net s] assms(1) that by simp
  from up sw st tg show ?thesis by blast
qed

lemma tick1_clicked_eq:
  "click_profile_item 2 tick1 =
     \<lparr>daemon_running = True, current_profile = JStr ''coding'',
      remapping_enabled = True, profiles_loaded = True,
      status_item = StatusProfile (JStr ''coding''), toggle_item = True,
      indicator_icon = ''input-keyboard'',
      profiles_submenu = [RefreshItem, SeparatorItem, ProfileItem ''default'' True,
                          ProfileItem ''coding'' True],
      trace = [TimeoutAdd 5000, HttpGet ''http://127.0.0.1:9867/api/status'',
               HttpGet ''http://127.0.0.1:9867/api/profiles'']\<rparr>"
  by (simp add: click_profile_item_def tick1_eq)

theorem active_profiles_follow_daemon_witness:
  "menu_ok (click_profile_item 2 tick1)
   \<and> reported_active (fst (api_get live_cfg daemon_up (click_profile_item 2 tick1)
        ''/api/profiles'')) \<le> 1
   \<and> fst (api_post live_cfg daemon_up (click_profile_item 2 tick1) ''/api/profiles/activate''
            (JObj [(''name'', JStr ''default'')]))
   \<and> active_count (click_profile_item 2 tick1) = 2
   \<and> active_count (snd (on_switch_profile live_cfg daemon_up (click_profile_item 2 tick1)
        ''default'')) \<le> 1
   \<and> menu_ok tick1
   \<and> reported_active (fst (api_get live_cfg daemon_up tick1 ''/api/profiles'')) \<le> 1
   \<and> active_count tick1 \<le> 1
   \<and> active_count (snd (update_status live_cfg daemon_up tick1)) \<le> 1"
proof -
  have menu2: "menu_ok (click_profile_item 2 tick1)"
    by (simp add: menu_ok_def tick1_clicked_eq)
  have daemon2: "reported_active (fst (api_get live_cfg daemon_up (click_profile_item 2 tick1)
                   ''/api/profiles'')) \<le> 1"
    by (simp add: reported_active_def api_get_def live_cfg_def load_config_def getenv_def
          daemon_up_def raise_for_status_def dict_get_def)
  have ack: "fst (api_post live_cfg daemon_up (click_profile_item 2 tick1)
                   ''/api/profiles/activate'' (JObj [(''name'', JStr ''default'')]))"
    by (simp add: api_post_def live_cfg_def load_config_def getenv_def daemon_up_def
          raise_for_status_def)
  have two: "active_count (click_profile_item 2 tick1) = 2"
    by (simp add: active_count_def tick1_clicked_eq)
  have menu1: "menu_ok tick1"
    by (simp add: menu_ok_def tick1_eq)
  have daemon1: "reported_active (fst (api_get live_cfg daemon_up tick1 ''/api/profiles'')) \<le> 1"
    by (simp add: reported_active_def api_get_def live_cfg_def load_config_def getenv_def
          daemon_up_def raise_for_status_def dict_get_def)
  have one: "active_count tick1 \<le> 1"
    by (simp add: active_count_def tick1_eq)
  from active_profiles_follow_daemon [OF menu2 daemon2, of "''default''"]
    active_profiles_follow_daemon [OF menu1 daemon1, of "''default''"]
  show ?thesis using menu2 daemon2 ack two menu1 daemon1 one by simp
qed

text \<open>
  C7 as stated holds for every snapshot of a reachable daemon. A daemon that reports two
  active profiles: after start-up the daemon counts as running and two entries are
  checked.
\<close>

theorem two_active_profiles_shown:
  "daemon_running (snd (tray_init live_cfg two_active_daemon))
   \<and> active_count (snd (tray_init live_cfg two_active_daemon)) = 2"
  by (simp add: tray_init_def update_status_def update_profiles_def api_get_def emit_def
        initial_tray_def live_cfg_def load_config_def getenv_def two_active_daemon_def raise_for_status_def
        dict_get_def active_count_def Let_def)

section \<open>Mock mode\<close>

text \<open>
  C8. With the mock flag set, whatever the network would answer: the status read
  returns the fixed payload with the keys "running", "profile" and "remapping_enabled"
  (the last one the tray's own attribute), the profiles read returns the fixed list of
  three with exactly one active entry, both leave the tray untouched, and every write is
  acknowledged; no operation adds an HTTP request to the trace.
\<close>

theorem mock_mode_substitutes_transport:
  assumes "MOCK_MODE cfg"
  shows "api_get cfg net s ''/api/status''
           = (JObj [(''running'', JBool True), (''version'', JStr ''0.1.0''),
                    (''profile'', JStr ''default''),
                    (''remapping_enabled'', JBool (remapping_enabled s))], s)
       \<and> api_get cfg net s ''/api/profiles''
           = (JObj [(''profiles'',
                JArr [JObj [(''name'', JStr ''default''), (''active'', JBool True)],
                      JObj [(''name'', JStr ''gaming''), (''active'', JBool False)],
                      JObj [(''name'', JStr ''coding''), (''active'', JBool False)]])], s)
       \<and> reported_active (fst (api_get cfg net s ''/api/profiles'')) = 1
       \<and> fst (api_post cfg net s endpoint data)
       \<and> network_io (trace (snd (api_post cfg net s endpoint data))) = network_io (trace s)"
  using assms
  by (simp add: api_get_def api_post_def mock_api_response_def reported_active_def dict_get_def
        emit_def network_io_def)

theorem mock_mode_substitutes_transport_witness:
  "MOCK_MODE mock_cfg
   \<and> fst (api_get mock_cfg daemon_down coding_tray ''/api/status'')
       = JObj [(''running'', JBool True), (''version'', JStr ''0.1.0''),
               (''profile'', JStr ''default''), (''remapping_enabled'', JBool True)]
   \<and> fst (api_post mock_cfg daemon_down coding_tray ''/api/toggle''
            (JObj [(''enabled'', JBool False)]))
   \<and> fst (api_post mock_cfg daemon_down coding_tray ''/api/profiles/activate''
            (JObj [(''name'', JStr ''gaming'')]))
   \<and> network_io (trace (snd (api_post mock_cfg daemon_down coding_tray ''/api/toggle''
        (JObj [(''enabled'', JBool False)])))) = []"
proof -
  have mock: "MOCK_MODE mock_cfg"
    by (simp add: mock_cfg_def load_config_def getenv_def)
  from mock_mode_substitutes_transport [OF mock, of daemon_down coding_tray "''/api/toggle''"
      "JObj [(''enabled'', JBool False)]"]
    mock_mode_substitutes_transport [OF mock, of daemon_down coding_tray
      "''/api/profiles/activate''" "JObj [(''name'', JStr ''gaming'')]"]
  show ?thesis using mock by (simp add: coding_tray_def network_io_def)
qed

end
